theory Spec2Isabelle
  imports Main
begin

section \<open>Data model of \<^verbatim>\<open>src/index.ts\<close>\<close>

text \<open>
  The gateway is one TypeScript module of a Cloudflare worker in front of an R2 bucket.
  JavaScript numbers that hold byte counts and offsets are modelled as \<open>int\<close>,
  strings as \<open>string\<close>, \<^verbatim>\<open>undefined\<close>/\<^verbatim>\<open>null\<close> as \<open>None\<close>.
\<close>

text \<open>
  \<^verbatim>\<open>R2Range\<close>: \<^verbatim>\<open>{offset, length?} | {offset?, length} | {suffix}\<close>. The test
  \<^verbatim>\<open>'suffix' in object.range\<close> selects the constructor \<open>Suffix\<close>.
\<close>

datatype R2Range = Suffix int | OffsetLength "int option" "int option"

text \<open>A \<^verbatim>\<open>Date\<close> is represented by what \<^verbatim>\<open>toISOString()\<close> returns for it.\<close>

datatype Date = Date (toISOString: string)

record R2HTTPMetadata =
  contentType :: "string option"
  contentLanguage :: "string option"
  contentDisposition :: "string option"
  contentEncoding :: "string option"
  cacheControl :: "string option"
  cacheExpiry :: "Date option"

text \<open>
  \<^verbatim>\<open>R2Object | R2ObjectBody\<close>: one record, the body optional; the source's test
  \<^verbatim>\<open>'body' in object\<close> is \<open>body \<noteq> None\<close>. The body's bytes are a \<open>string\<close>.
\<close>

record R2Object =
  key :: string
  size :: int
  range :: "R2Range option"
  httpMetadata :: "R2HTTPMetadata option"
  customMetadata :: "(string \<rightharpoonup> string) option"
  body :: "string option"

section \<open>Range resolution (\<^verbatim>\<open>calcContentRange\<close>, lines 121-137)\<close>

text \<open>The nullish coalescing operator \<^verbatim>\<open>a ?? b\<close>.\<close>

definition nullish :: "'a option \<Rightarrow> 'a \<Rightarrow> 'a" where
  "nullish a b = (case a of None \<Rightarrow> b | Some v \<Rightarrow> v)"

text \<open>The result \<^verbatim>\<open>{ rangeOffset, rangeEnd }\<close> is the pair \<open>(rangeOffset, rangeEnd)\<close>.\<close>

definition calcContentRange :: "R2Object \<Rightarrow> int \<times> int" where
  "calcContentRange object =
     (let rangeOffset = 0;
          rangeEnd = size object - 1
      in case range object of
           None \<Rightarrow> (rangeOffset, rangeEnd)
         | Some (Suffix suffix) \<Rightarrow> (size object - suffix, rangeEnd)
         | Some (OffsetLength offset len) \<Rightarrow>
             (let rangeOffset = nullish offset 0;
                  length' = nullish len (size object - rangeOffset)
              in (rangeOffset, min (rangeOffset + length' - 1) (size object - 1))))"

section \<open>Runtime values: strings, URLs, requests, responses\<close>

text \<open>\<^verbatim>\<open>String.prototype.startsWith\<close> and \<^verbatim>\<open>endsWith\<close>.\<close>

definition startsWith :: "string \<Rightarrow> string \<Rightarrow> bool" where
  "startsWith s t = (take (length t) s = t)"

definition endsWith :: "string \<Rightarrow> string \<Rightarrow> bool" where
  "endsWith s t = (length t \<le> length s \<and> drop (length s - length t) s = t)"

text \<open>\<^verbatim>\<open>Array.prototype.join\<close> on strings.\<close>

fun join :: "string \<Rightarrow> string list \<Rightarrow> string" where
  "join sep [] = []"
| "join sep [x] = x"
| "join sep (x # y # ys) = x @ sep @ join sep (y # ys)"

text \<open>Decimal rendering of an integer, as \<^verbatim>\<open>toString()\<close> and template literals do.\<close>

fun digits :: "nat \<Rightarrow> string" where
  "digits n =
     (if n < 10 then [''0123456789'' ! n]
      else digits (n div 10) @ [''0123456789'' ! (n mod 10)])"

definition numberToString :: "int \<Rightarrow> string" where
  "numberToString i = (if i < 0 then CHR ''-'' # digits (nat (- i)) else digits (nat i))"

text \<open>
  A request's URL is kept in the parsed form the runtime's \<^verbatim>\<open>URL\<close> class gives:
  \<^verbatim>\<open>request.url\<close> is the serialisation \<open>href\<close>, and
  \<^verbatim>\<open>new URL(request.url).pathname\<close> is the field \<open>pathname\<close>. The field
  \<open>search\<close> is empty or the query string with its leading \<^verbatim>\<open>?\<close>.
\<close>

record URL =
  origin :: string
  pathname :: string
  search :: string

definition href :: "URL \<Rightarrow> string" where
  "href u = origin u @ pathname u @ search u"

type_synonym Headers = "(string \<times> string) list"

record Request =
  request_method :: string
  url :: URL
  request_headers :: Headers

text \<open>
  \<^verbatim>\<open>new Response(body, {status, statusText, headers})\<close>: the record holds what the
  source passes to the constructor; \<open>response_body = None\<close> is the body \<^verbatim>\<open>null\<close>,
  and \<open>statusText\<close> is empty where the source gives none.
\<close>

record Response =
  status :: nat
  statusText :: string
  headers :: Headers
  response_body :: "string option"

section \<open>The bucket\<close>

text \<open>
  The bucket is outside the module. Its two methods are parameters of the model: each
  takes the store's state and returns the answer (or the exception it throws) and the
  next state. Every call is recorded in \<open>calls\<close>.
\<close>

datatype StoreError = StoreError string

record R2ListOptions =
  list_prefix :: string
  list_delimiter :: "string option"
  list_cursor :: "string option"
  list_include :: "string list"

record R2Objects =
  objects :: "R2Object list"
  truncated :: bool
  cursor :: "string option"

record R2GetOptions =
  get_onlyIf :: Headers
  get_range :: Headers

record 'st R2Bucket =
  bucket_list :: "R2ListOptions \<Rightarrow> 'st \<Rightarrow> (StoreError + R2Objects) \<times> 'st"
  bucket_get :: "string \<Rightarrow> R2GetOptions \<Rightarrow> 'st \<Rightarrow> (StoreError + R2Object option) \<times> 'st"

record 'st Env =
  bucket :: "'st R2Bucket"

datatype StoreCall = ListCall R2ListOptions | GetCall string R2GetOptions

record 'st World =
  store :: 'st
  calls :: "StoreCall list"

text \<open>\<^verbatim>\<open>await bucket.list(options)\<close> and \<^verbatim>\<open>await bucket.get(key, options)\<close>.\<close>

definition call_list ::
  "'st R2Bucket \<Rightarrow> R2ListOptions \<Rightarrow> 'st World \<Rightarrow> (StoreError + R2Objects) \<times> 'st World" where
  "call_list b options w =
     (case bucket_list b options (store w) of
        (r, s') \<Rightarrow> (r, \<lparr>store = s', calls = calls w @ [ListCall options]\<rparr>))"

definition call_get ::
  "'st R2Bucket \<Rightarrow> string \<Rightarrow> R2GetOptions \<Rightarrow> 'st World
     \<Rightarrow> (StoreError + R2Object option) \<times> 'st World" where
  "call_get b k options w =
     (case bucket_get b k options (store w) of
        (r, s') \<Rightarrow> (r, \<lparr>store = s', calls = calls w @ [GetCall k options]\<rparr>))"

section \<open>Prefix enumeration (\<^verbatim>\<open>listAll\<close>, lines 6-25)\<close>

text \<open>The options object of line 9.\<close>

definition list_options :: "string \<Rightarrow> bool \<Rightarrow> string option \<Rightarrow> R2ListOptions" where
  "list_options prefix isRecursive c =
     \<lparr>list_prefix = prefix,
      list_delimiter = (if isRecursive then None else Some ''/''),
      list_cursor = c,
      list_include = [''httpMetadata'', ''customMetadata'']\<rparr>"

text \<open>
  The \<^verbatim>\<open>do ... while\<close> loop. \<open>yielded\<close> collects the objects the generator has
  yielded so far; an exception of \<^verbatim>\<open>bucket.list\<close> ends the enumeration with
  \<open>Inl\<close>; a loop that never sees an untruncated page has the value \<open>None\<close>.
\<close>

partial_function (option) listAll_loop ::
  "'st R2Bucket \<Rightarrow> string \<Rightarrow> bool \<Rightarrow> string option \<Rightarrow> R2Object list \<Rightarrow> 'st World
     \<Rightarrow> ((StoreError + R2Object list) \<times> 'st World) option" where
  "listAll_loop b prefix isRecursive c yielded w =
     (case call_list b (list_options prefix isRecursive c) w of
        (Inl e, w') \<Rightarrow> Some (Inl e, w')
      | (Inr r2_objects, w') \<Rightarrow>
          (let yielded' = yielded @ objects r2_objects;
               c' = (if truncated r2_objects then cursor r2_objects else c)
           in if truncated r2_objects
              then listAll_loop b prefix isRecursive c' yielded' w'
              else Some (Inr yielded', w')))"

declare listAll_loop.simps [code]

definition listAll ::
  "'st R2Bucket \<Rightarrow> string \<Rightarrow> bool \<Rightarrow> 'st World
     \<Rightarrow> ((StoreError + R2Object list) \<times> 'st World) option" where
  "listAll b prefix isRecursive w = listAll_loop b prefix isRecursive None [] w"

section \<open>Handlers\<close>

text \<open>\<^verbatim>\<open>make_resource_path\<close>, lines 27-31: \<^verbatim>\<open>slice(1)\<close> and \<^verbatim>\<open>slice(0, -1)\<close>.\<close>

definition make_resource_path :: "Request \<Rightarrow> string" where
  "make_resource_path request =
     (let path = drop 1 (pathname (url request))
      in if endsWith path ''/'' then butlast path else path)"

subsection \<open>Directory listing (lines 45-66)\<close>

text \<open>\<^verbatim>\<open>object.customMetadata?.resourcetype === '<collection />'\<close>\<close>

definition is_collection :: "R2Object \<Rightarrow> bool" where
  "is_collection object =
     (case customMetadata object of
        None \<Rightarrow> False
      | Some m \<Rightarrow> m ''resourcetype'' = Some ''<collection />'')"

text \<open>Line 57: the link target of an entry.\<close>

definition entry_href :: "R2Object \<Rightarrow> string" where
  "entry_href object = ''/'' @ key object @ (if is_collection object then ''/'' else [])"

text \<open>Line 58: the link text of an entry.\<close>

definition entry_text :: "string \<Rightarrow> R2Object \<Rightarrow> string" where
  "entry_text prefix object =
     nullish (case httpMetadata object of None \<Rightarrow> None | Some m \<Rightarrow> contentDisposition m)
             (drop (length prefix) (key object))"

definition entry_link :: "string \<Rightarrow> R2Object \<Rightarrow> string" where
  \<open>entry_link prefix object =
     ''<a href="'' @ entry_href object @ ''">'' @ entry_text prefix object @ ''</a><br>''\<close>

definition parent_link :: string where
  \<open>parent_link = ''<a href="../">..</a><br>''\<close>

text \<open>
  The \<^verbatim>\<open>for await\<close> loop of lines 53-59 over the enumerated objects, \<open>page\<close> being
  the string built so far.
\<close>

fun render_entries :: "string \<Rightarrow> string \<Rightarrow> R2Object list \<Rightarrow> string \<Rightarrow> string" where
  "render_entries resource_path prefix [] page = page"
| "render_entries resource_path prefix (object # rest) page =
     (if key object = resource_path
      then render_entries resource_path prefix rest page
      else render_entries resource_path prefix rest (page @ entry_link prefix object))"

text \<open>The template of line 61.\<close>

definition pageSource :: "string \<Rightarrow> string" where
  \<open>pageSource page =
     ''<!DOCTYPE html><html lang="en"><head><meta charset="UTF-8"><meta name="viewport" content="width=device-width,initial-scale=1.0"><title>R2Storage</title><style>*{box-sizing:border-box;}body{padding:10px;font-family:'Segoe UI','Circular','Roboto','Lato','Helvetica Neue','Arial Rounded MT Bold','sans-serif';}a{display:inline-block;width:100%;color:#000;text-decoration:none;padding:5px 10px;cursor:pointer;border-radius:5px;}a:hover{background-color:#60C590;color:white;}a[href="../"]{background-color:#cbd5e1;}</style></head><body><h1>R2 Storage</h1><div>''
     @ page @ ''</div></body></html>''\<close>

definition directory_response :: "string \<Rightarrow> string \<Rightarrow> string \<Rightarrow> R2Object list \<Rightarrow> Response" where
  "directory_response resource_path prefix page listed =
     \<lparr>status = 200, statusText = [],
      headers = [(''Content-Type'', ''text/html; charset=utf-8'')],
      response_body = Some (pageSource (render_entries resource_path prefix listed page))\<rparr>"

subsection \<open>Object fetch (lines 68-117)\<close>

text \<open>
  A spread \<^verbatim>\<open>...(v ? { name: v } : {})\<close> on an optional string: absent and the empty
  string are both falsy.
\<close>

definition optional_header :: "string \<Rightarrow> string option \<Rightarrow> Headers" where
  "optional_header name v =
     (case v of None \<Rightarrow> [] | Some s \<Rightarrow> if s = [] then [] else [(name, s)])"

text \<open>\<^verbatim>\<open>object.httpMetadata?.field\<close>\<close>

definition meta :: "R2Object \<Rightarrow> (R2HTTPMetadata \<Rightarrow> 'a option) \<Rightarrow> 'a option" where
  "meta object field = (case httpMetadata object of None \<Rightarrow> None | Some m \<Rightarrow> field m)"

text \<open>Lines 82-116, for an object that has a body.\<close>

definition object_response :: "R2Object \<Rightarrow> Response" where
  "object_response object =
     (case calcContentRange object of
        (rangeOffset, rangeEnd) \<Rightarrow>
          (let contentLength = rangeEnd - rangeOffset + 1
           in \<lparr>status = (if range object \<noteq> None \<and> contentLength \<noteq> size object then 206 else 200),
               statusText = [],
               headers =
                 [(''Content-Type'', nullish (meta object contentType) ''application/octet-stream''),
                  (''Content-Length'', numberToString contentLength),
                  (''Content-Range'',
                     ''bytes '' @ numberToString rangeOffset @ ''-'' @ numberToString rangeEnd
                       @ ''/'' @ numberToString (size object))]
                 @ optional_header ''Content-Disposition'' (meta object contentDisposition)
                 @ optional_header ''Content-Encoding'' (meta object contentEncoding)
                 @ optional_header ''Content-Language'' (meta object contentLanguage)
                 @ optional_header ''Cache-Control'' (meta object cacheControl)
                 @ (case meta object cacheExpiry of
                      None \<Rightarrow> []
                    | Some d \<Rightarrow> [(''Cache-Expiry'', toISOString d)]),
               response_body = body object\<rparr>))"

text \<open>Lines 77-117: the three outcomes of \<^verbatim>\<open>bucket.get\<close>.\<close>

definition get_response :: "R2Object option \<Rightarrow> Response" where
  "get_response r =
     (case r of
        None \<Rightarrow>
          \<lparr>status = 404, statusText = [], headers = [], response_body = Some ''Not Found''\<rparr>
      | Some object \<Rightarrow>
          if body object = None
          then \<lparr>status = 412, statusText = [], headers = [],
                response_body = Some ''Precondition Failed''\<rparr>
          else object_response object)"

subsection \<open>\<^verbatim>\<open>handle_get\<close> (lines 42-119) and \<^verbatim>\<open>handle_head\<close> (lines 33-40)\<close>

text \<open>
  The result is \<open>None\<close> when the handler never returns, \<open>Some (Inl e, w)\<close> when it
  throws, \<open>Some (Inr response, w)\<close> when it returns; \<open>w\<close> is the world afterwards.
  The loop over the generator only builds a string, so the enumeration is run first and
  the loop body applied to what it yielded; an exception in the enumeration discards
  the page built so far, as in the source.
\<close>

definition handle_get ::
  "Request \<Rightarrow> 'st R2Bucket \<Rightarrow> 'st World \<Rightarrow> ((StoreError + Response) \<times> 'st World) option" where
  "handle_get request b w =
     (let resource_path = make_resource_path request
      in if endsWith (href (url request)) ''/''
         then
           (case (if resource_path \<noteq> []
                  then ([] @ parent_link, resource_path @ ''/'')
                  else ([], resource_path)) of
              (page, prefix) \<Rightarrow>
                (case listAll b prefix False w of
                   None \<Rightarrow> None
                 | Some (Inl e, w') \<Rightarrow> Some (Inl e, w')
                 | Some (Inr listed, w') \<Rightarrow>
                     Some (Inr (directory_response resource_path prefix page listed), w')))
         else
           (case call_get b resource_path
                   \<lparr>get_onlyIf = request_headers request, get_range = request_headers request\<rparr> w of
              (Inl e, w') \<Rightarrow> Some (Inl e, w')
            | (Inr object, w') \<Rightarrow> Some (Inr (get_response object), w')))"

definition handle_head ::
  "Request \<Rightarrow> 'st R2Bucket \<Rightarrow> 'st World \<Rightarrow> ((StoreError + Response) \<times> 'st World) option" where
  "handle_head request b w =
     (case handle_get request b w of
        None \<Rightarrow> None
      | Some (Inl e, w') \<Rightarrow> Some (Inl e, w')
      | Some (Inr response, w') \<Rightarrow>
          Some (Inr \<lparr>status = status response, statusText = statusText response,
                     headers = headers response, response_body = None\<rparr>, w'))"

section \<open>Dispatch (lines 139-166) and the entry point (lines 168-185)\<close>

definition SUPPORT_METHODS :: "string list" where
  "SUPPORT_METHODS = [''OPTIONS'', ''GET'', ''HEAD'']"

definition dispatch_handler ::
  "Request \<Rightarrow> 'st R2Bucket \<Rightarrow> 'st World \<Rightarrow> ((StoreError + Response) \<times> 'st World) option" where
  "dispatch_handler request b w =
     (if request_method request = ''OPTIONS''
      then Some (Inr \<lparr>status = 204, statusText = [],
                       headers = [(''Allow'', join '', '' SUPPORT_METHODS)],
                       response_body = None\<rparr>, w)
      else if request_method request = ''HEAD'' then handle_head request b w
      else if request_method request = ''GET'' then handle_get request b w
      else Some (Inr \<lparr>status = 405, statusText = [],
                       headers = [(''Allow'', join '', '' SUPPORT_METHODS)],
                       response_body = Some ''Method Not Allowed''\<rparr>, w))"

text \<open>Line 174.\<close>

definition is_public_path :: "string \<Rightarrow> bool" where
  "is_public_path p = (startsWith p ''/public/'' \<or> p = ''/public'')"

definition fetch ::
  "Request \<Rightarrow> 'st Env \<Rightarrow> 'st World \<Rightarrow> ((StoreError + Response) \<times> 'st World) option" where
  "fetch request env w =
     (if \<not> is_public_path (pathname (url request))
      then Some (Inr \<lparr>status = 401, statusText = [], headers = [],
                       response_body = Some ''Unauthorized''\<rparr>, w)
      else dispatch_handler request (bucket env) w)"

section \<open>Vocabulary of the specification\<close>

text \<open>
  The range resolver in the specification's words (section 4.3): full object without a
  range; the last \<open>k\<close> bytes for a suffix, the offset clamped to \<open>0\<close>; for
  offset and length, \<open>offset ?? 0\<close> and
  \<open>min (rangeOffset + (length ?? (S - rangeOffset)) - 1) (S - 1)\<close>.
\<close>

definition range_resolver_reference :: "int \<Rightarrow> R2Range option \<Rightarrow> int \<times> int" where
  "range_resolver_reference S r =
     (case r of
        None \<Rightarrow> (0, S - 1)
      | Some (Suffix k) \<Rightarrow> (max 0 (S - k), S - 1)
      | Some (OffsetLength offset len) \<Rightarrow>
          (case offset of None \<Rightarrow> 0 | Some off \<Rightarrow> off,
           min ((case offset of None \<Rightarrow> 0 | Some off \<Rightarrow> off)
                + (case len of
                     None \<Rightarrow> S - (case offset of None \<Rightarrow> 0 | Some off \<Rightarrow> off)
                   | Some l \<Rightarrow> l) - 1)
               (S - 1)))"

text \<open>A suffix range asks for at most the whole object.\<close>

definition suffix_within :: "int \<Rightarrow> R2Range option \<Rightarrow> bool" where
  "suffix_within S r = (case r of Some (Suffix k) \<Rightarrow> k \<le> S | _ \<Rightarrow> True)"

text \<open>The contract \<open>0 \<le> rangeOffset \<le> rangeEnd \<le> max (S - 1) 0\<close> of section 4.3.\<close>

definition range_invariant :: "int \<Rightarrow> int \<times> int \<Rightarrow> bool" where
  "range_invariant S p = (0 \<le> fst p \<and> fst p \<le> snd p \<and> snd p \<le> max (S - 1) 0)"

text \<open>
  The ranges that name at least one byte of an object of \<open>S\<close> bytes: a suffix of
  \<open>1..S\<close> bytes, or an offset inside the object with a length that is absent or positive.
\<close>

definition satisfiable_range :: "int \<Rightarrow> R2Range option \<Rightarrow> bool" where
  "satisfiable_range S r =
     (case r of
        None \<Rightarrow> True
      | Some (Suffix k) \<Rightarrow> 1 \<le> k \<and> k \<le> S
      | Some (OffsetLength offset len) \<Rightarrow>
          0 \<le> nullish offset 0 \<and> nullish offset 0 \<le> S - 1 \<and> 1 \<le> nullish len 1)"

text \<open>
  The store answers the pages \<open>ps\<close>, in this order, to the list calls for \<open>prefix\<close>
  that start with the cursor \<open>c\<close> and go on with the cursor of the page before; none of
  the calls throws, and the store is left in state \<open>s'\<close>.
\<close>

fun list_run ::
  "'st R2Bucket \<Rightarrow> string \<Rightarrow> bool \<Rightarrow> string option \<Rightarrow> 'st \<Rightarrow> R2Objects list \<Rightarrow> 'st \<Rightarrow> bool" where
  "list_run b prefix isRecursive c s [] s' = (s' = s)"
| "list_run b prefix isRecursive c s (p # ps) s' =
     (case bucket_list b (list_options prefix isRecursive c) s of
        (Inl e, s1) \<Rightarrow> False
      | (Inr p', s1) \<Rightarrow> p' = p \<and> list_run b prefix isRecursive (cursor p) s1 ps s')"

text \<open>A result with the response's body replaced by \<^verbatim>\<open>null\<close>.\<close>

definition strip_body ::
  "((StoreError + Response) \<times> 'st World) option \<Rightarrow> ((StoreError + Response) \<times> 'st World) option" where
  "strip_body r =
     (case r of
        None \<Rightarrow> None
      | Some (Inl e, w') \<Rightarrow> Some (Inl e, w')
      | Some (Inr response, w') \<Rightarrow> Some (Inr (response\<lparr>response_body := None\<rparr>), w'))"

section \<open>Sample data\<close>

text \<open>
  A bucket for concrete runs: its state is the list of listing pages it has still to
  hand out, one per \<^verbatim>\<open>list\<close> call whatever the options; \<^verbatim>\<open>get\<close> answers \<open>got\<close>
  for every key.
\<close>

definition scripted_bucket :: "R2Object option \<Rightarrow> (R2Objects list) R2Bucket" where
  "scripted_bucket got =
     \<lparr>bucket_list = (\<lambda>options s. case s of
                        [] \<Rightarrow> (Inl (StoreError ''no page''), [])
                      | p # ps \<Rightarrow> (Inr p, ps)),
      bucket_get = (\<lambda>k options s. (Inr got, s))\<rparr>"

definition sample_object :: "int \<Rightarrow> R2Range option \<Rightarrow> string option \<Rightarrow> R2Object" where
  "sample_object S r content =
     \<lparr>key = ''public/a.txt'', size = S, range = r, httpMetadata = None,
      customMetadata = None, body = content\<rparr>"

definition sample_request :: "string \<Rightarrow> string \<Rightarrow> string \<Rightarrow> Request" where
  "sample_request m p q =
     \<lparr>request_method = m, url = \<lparr>origin = ''https://example.com'', pathname = p, search = q\<rparr>,
      request_headers = []\<rparr>"

definition sample_page :: "string list \<Rightarrow> bool \<Rightarrow> string option \<Rightarrow> R2Objects" where
  "sample_page keys trunc c =
     \<lparr>objects = map (\<lambda>k. (sample_object 3 None None)\<lparr>key := k\<rparr>) keys,
      truncated = trunc, cursor = c\<rparr>"

text \<open>A file, the marker object of the directory itself, and a sub-collection.\<close>

definition sample_listing :: "R2Objects" where
  "sample_listing =
     \<lparr>objects = [(sample_object 3 None None)\<lparr>key := ''public/a.txt''\<rparr>,
                 (sample_object 0 None None)\<lparr>key := ''public''\<rparr>,
                 (sample_object 0 None None)
                   \<lparr>key := ''public/sub'',
                    customMetadata := Some [''resourcetype'' \<mapsto> ''<collection />'']\<rparr>],
      truncated = False, cursor = None\<rparr>"

section \<open>Range resolution\<close>

text \<open>
  C2: the range resolver agrees with the reference definition: \<open>(0, S - 1)\<close> without a
  range, \<open>(S - k, S - 1)\<close> for a suffix of \<open>k \<le> S\<close> bytes, and for offset and length
  \<open>rangeOffset = offset ?? 0\<close>,
  \<open>rangeEnd = min (rangeOffset + (length ?? (S - rangeOffset)) - 1) (S - 1)\<close>.
\<close>

theorem calcContentRange_reference:
  assumes "suffix_within (size object) (range object)"
  shows "calcContentRange object = range_resolver_reference (size object) (range object)"
  using assms
  by (auto simp: calcContentRange_def range_resolver_reference_def suffix_within_def nullish_def
                 Let_def
           split: option.splits R2Range.splits)

theorem calcContentRange_reference_witness:
  "suffix_within 100 (Some (Suffix 30))
   \<and> calcContentRange (sample_object 100 (Some (Suffix 30)) (Some ''data'')) = (70, 99)
   \<and> range_resolver_reference 100 (Some (Suffix 30)) = (70, 99)"
  using calcContentRange_reference [of "sample_object 100 (Some (Suffix 30)) (Some ''data'')"]
  by (simp add: sample_object_def suffix_within_def range_resolver_reference_def)

text \<open>
  C3, as amended: for a size \<open>S \<ge> 0\<close> the resolver always has \<open>rangeEnd \<le> S - 1\<close>, and
  its output satisfies \<open>0 \<le> rangeOffset \<le> rangeEnd \<le> max (S - 1) 0\<close> exactly when
  \<open>S \<ge> 1\<close> and the range is absent, or a suffix of \<open>1..S\<close> bytes, or an offset
  \<open>0 \<le> offset ?? 0 \<le> S - 1\<close> with a length that is absent or at least \<open>1\<close>. Nothing
  is clamped from below: for every suffix \<open>k\<close> the output is \<open>(S - k, S - 1)\<close>, negative
  offset included.
\<close>

theorem calcContentRange_invariant_iff:
  assumes "0 \<le> size object"
  shows "snd (calcContentRange object) \<le> size object - 1
         \<and> range_invariant (size object) (calcContentRange object)
             = (1 \<le> size object \<and> satisfiable_range (size object) (range object))
         \<and> (\<forall>k. range object = Some (Suffix k)
                \<longrightarrow> calcContentRange object = (size object - k, size object - 1))"
  using assms
  by (auto simp: calcContentRange_def range_invariant_def satisfiable_range_def nullish_def
                 Let_def
           split: option.splits R2Range.splits)

theorem calcContentRange_invariant_iff_witness:
  "(0::int) \<le> 100 \<and> satisfiable_range 100 (Some (OffsetLength (Some 10) (Some 500)))
   \<and> calcContentRange (sample_object 100 (Some (OffsetLength (Some 10) (Some 500))) (Some ''data''))
       = (10, 99)
   \<and> range_invariant 100 (10, 99)
   \<and> calcContentRange (sample_object 100 (Some (Suffix 150)) (Some ''data'')) = (- 50, 99)"
  using calcContentRange_invariant_iff
          [of "sample_object 100 (Some (OffsetLength (Some 10) (Some 500))) (Some ''data'')"]
        calcContentRange_invariant_iff
          [of "sample_object 100 (Some (Suffix 150)) (Some ''data'')"]
  by (simp add: sample_object_def satisfiable_range_def nullish_def calcContentRange_def)

text \<open>
  C3 as stated fails: a suffix of 150 bytes on an object of 100 bytes resolves to the
  offset \<open>- 50\<close>, and an empty object without a range resolves to \<open>(0, - 1)\<close>.
\<close>

theorem calcContentRange_unclamped:
  "calcContentRange (sample_object 100 (Some (Suffix 150)) (Some ''data'')) = (- 50, 99)
   \<and> \<not> range_invariant 100 (calcContentRange (sample_object 100 (Some (Suffix 150)) (Some ''data'')))
   \<and> calcContentRange (sample_object 0 None (Some [])) = (0, - 1)
   \<and> \<not> range_invariant 0 (calcContentRange (sample_object 0 None (Some [])))"
  by (simp add: calcContentRange_def sample_object_def range_invariant_def)

section \<open>Object fetch\<close>

text \<open>
  C1: when the fetch returns an object with a body, the status is 206 exactly when the
  object carries a range and the resolved content length \<open>rangeEnd - rangeOffset + 1\<close>
  differs from its size, and 200 otherwise.
\<close>

theorem handle_get_status_partial:
  assumes "\<not> endsWith (href (url request)) ''/''"
    and "call_get b (make_resource_path request)
           \<lparr>get_onlyIf = request_headers request, get_range = request_headers request\<rparr> w
         = (Inr (Some object), w')"
    and "body object \<noteq> None"
    and "calcContentRange object = (rangeOffset, rangeEnd)"
  shows "\<exists>response. handle_get request b w = Some (Inr response, w')
           \<and> status response
               = (if range object \<noteq> None \<and> rangeEnd - rangeOffset + 1 \<noteq> size object
                  then 206 else 200)"
  using assms
  by (auto simp: handle_get_def get_response_def object_response_def Let_def)

text \<open>Size 100 with offset 0 and length 100 gives 200; offset 10 and length 20 gives 206.\<close>

theorem handle_get_status_partial_witness:
  "handle_get (sample_request ''GET'' ''/public/a.txt'' [])
      (scripted_bucket (Some (sample_object 100 (Some (OffsetLength (Some 0) (Some 100))) (Some ''data''))))
      \<lparr>store = [], calls = []\<rparr>
   = Some (Inr (object_response (sample_object 100 (Some (OffsetLength (Some 0) (Some 100))) (Some ''data''))),
           \<lparr>store = [], calls = [GetCall ''public/a.txt'' \<lparr>get_onlyIf = [], get_range = []\<rparr>]\<rparr>)
   \<and> status (object_response (sample_object 100 (Some (OffsetLength (Some 0) (Some 100))) (Some ''data'')))
       = 200
   \<and> handle_get (sample_request ''GET'' ''/public/a.txt'' [])
      (scripted_bucket (Some (sample_object 100 (Some (OffsetLength (Some 10) (Some 20))) (Some ''data''))))
      \<lparr>store = [], calls = []\<rparr>
   = Some (Inr (object_response (sample_object 100 (Some (OffsetLength (Some 10) (Some 20))) (Some ''data''))),
           \<lparr>store = [], calls = [GetCall ''public/a.txt'' \<lparr>get_onlyIf = [], get_range = []\<rparr>]\<rparr>)
   \<and> status (object_response (sample_object 100 (Some (OffsetLength (Some 10) (Some 20))) (Some ''data'')))
       = 206"
  using handle_get_status_partial
          [of "sample_request ''GET'' ''/public/a.txt'' []"
              "scripted_bucket (Some (sample_object 100 (Some (OffsetLength (Some 0) (Some 100))) (Some ''data'')))"
              "\<lparr>store = [], calls = []\<rparr>"
              "sample_object 100 (Some (OffsetLength (Some 0) (Some 100))) (Some ''data'')"
              "\<lparr>store = [], calls = [GetCall ''public/a.txt'' \<lparr>get_onlyIf = [], get_range = []\<rparr>]\<rparr>"
              0 99]
        handle_get_status_partial
          [of "sample_request ''GET'' ''/public/a.txt'' []"
              "scripted_bucket (Some (sample_object 100 (Some (OffsetLength (Some 10) (Some 20))) (Some ''data'')))"
              "\<lparr>store = [], calls = []\<rparr>"
              "sample_object 100 (Some (OffsetLength (Some 10) (Some 20))) (Some ''data'')"
              "\<lparr>store = [], calls = [GetCall ''public/a.txt'' \<lparr>get_onlyIf = [], get_range = []\<rparr>]\<rparr>"
              10 29]
  by (simp add: sample_request_def sample_object_def scripted_bucket_def endsWith_def href_def
        call_get_def make_resource_path_def calcContentRange_def nullish_def
        handle_get_def get_response_def)

text \<open>
  C5, as amended: when the fetch returns an object without a body, the response has
  status 412, the text \<^verbatim>\<open>Precondition Failed\<close> as its body, and no header set by the
  handler.
\<close>

theorem handle_get_precondition_failed:
  assumes "\<not> endsWith (href (url request)) ''/''"
    and "call_get b (make_resource_path request)
           \<lparr>get_onlyIf = request_headers request, get_range = request_headers request\<rparr> w
         = (Inr (Some object), w')"
    and "body object = None"
  shows "handle_get request b w =
           Some (Inr \<lparr>status = 412, statusText = [], headers = [],
                      response_body = Some ''Precondition Failed''\<rparr>, w')"
  using assms by (simp add: handle_get_def get_response_def)

theorem handle_get_precondition_failed_witness:
  "handle_get (sample_request ''GET'' ''/public/a.txt'' [])
      (scripted_bucket (Some (sample_object 100 None None))) \<lparr>store = [], calls = []\<rparr>
   = Some (Inr \<lparr>status = 412, statusText = [], headers = [],
                response_body = Some ''Precondition Failed''\<rparr>,
           \<lparr>store = [], calls = [GetCall ''public/a.txt'' \<lparr>get_onlyIf = [], get_range = []\<rparr>]\<rparr>)"
  using handle_get_precondition_failed
          [of "sample_request ''GET'' ''/public/a.txt'' []"
              "scripted_bucket (Some (sample_object 100 None None))"
              "\<lparr>store = [], calls = []\<rparr>"
              "sample_object 100 None None"
              "\<lparr>store = [], calls = [GetCall ''public/a.txt'' \<lparr>get_onlyIf = [], get_range = []\<rparr>]\<rparr>"]
  by (simp add: sample_request_def sample_object_def scripted_bucket_def endsWith_def href_def
        call_get_def make_resource_path_def)

text \<open>
  C5 as stated fails: the 412 response to a bodyless object of 7 bytes carries a body.
\<close>

theorem precondition_failed_has_body:
  "handle_get (sample_request ''GET'' ''/public/b.txt'' [])
      (scripted_bucket (Some (sample_object 7 None None))) \<lparr>store = [], calls = []\<rparr>
   = Some (Inr \<lparr>status = 412, statusText = [], headers = [],
                response_body = Some ''Precondition Failed''\<rparr>,
           \<lparr>store = [], calls = [GetCall ''public/b.txt'' \<lparr>get_onlyIf = [], get_range = []\<rparr>]\<rparr>)
   \<and> response_body \<lparr>status = 412, statusText = [], headers = [],
                     response_body = Some ''Precondition Failed''\<rparr> \<noteq> None"
  by (simp add: sample_request_def sample_object_def scripted_bucket_def endsWith_def href_def
        call_get_def make_resource_path_def handle_get_def get_response_def)

section \<open>Prefix enumeration\<close>

text \<open>
  A run of the loop against a store that answers the pages \<open>ps @ [p]\<close>, all but the last
  truncated, from any cursor and with any objects already yielded.
\<close>

lemma listAll_loop_run:
  assumes "list_run b prefix isRecursive c (store w) (ps @ [p]) s'"
    and "\<forall>q\<in>set ps. truncated q" and "\<not> truncated p"
  shows "listAll_loop b prefix isRecursive c yielded w =
           Some (Inr (yielded @ concat (map objects (ps @ [p]))),
                 \<lparr>store = s',
                  calls = calls w @ map (\<lambda>c. ListCall (list_options prefix isRecursive c))
                                        (c # map cursor ps)\<rparr>)"
  using assms
proof (induction ps arbitrary: c yielded w)
  case Nil
  then show ?case
    by (subst listAll_loop.simps)
       (auto simp: call_list_def split: prod.splits sum.splits)
next
  case (Cons q qs)
  from Cons.prems(1) obtain s1 where
    step: "bucket_list b (list_options prefix isRecursive c) (store w) = (Inr q, s1)"
    and rest: "list_run b prefix isRecursive (cursor q) s1 (qs @ [p]) s'"
    by (auto split: prod.splits sum.splits)
  let ?w1 = "\<lparr>store = s1, calls = calls w @ [ListCall (list_options prefix isRecursive c)]\<rparr>"
  have q: "truncated q" and qs: "\<forall>q\<in>set qs. truncated q"
    using Cons.prems(2) by simp_all
  have "listAll_loop b prefix isRecursive c yielded w
          = listAll_loop b prefix isRecursive (cursor q) (yielded @ objects q) ?w1"
    by (subst listAll_loop.simps) (simp add: call_list_def step q)
  also have "\<dots> = Some (Inr ((yielded @ objects q) @ concat (map objects (qs @ [p]))),
                 \<lparr>store = s',
                  calls = calls ?w1 @ map (\<lambda>c. ListCall (list_options prefix isRecursive c))
                                        (cursor q # map cursor qs)\<rparr>)"
    using Cons.IH[of "cursor q" ?w1 "yielded @ objects q"] rest qs Cons.prems(3) by simp
  finally show ?case by simp
qed

text \<open>
  C4: when the store answers a sequence of pages whose truncation flags are true for the
  first \<open>M\<close> pages and false for the last, the enumeration returns the concatenation
  of the pages' objects in page order, and makes exactly \<open>M + 1\<close> list calls. Each call
  carries the given prefix, the delimiter \<^verbatim>\<open>/\<close> unless the enumeration is recursive, and
  the two metadata kinds; the first call carries no cursor, and each further call carries
  the cursor of the page before it.
\<close>

theorem listAll_pages:
  assumes "list_run b prefix isRecursive None (store w) (ps @ [p]) s'"
    and "\<forall>q\<in>set ps. truncated q" and "\<not> truncated p"
  shows "\<exists>made.
           listAll b prefix isRecursive w =
             Some (Inr (concat (map objects (ps @ [p]))),
                   \<lparr>store = s', calls = calls w @ map ListCall made\<rparr>)
           \<and> length made = length ps + 1
           \<and> map list_cursor made = None # map cursor ps
           \<and> (\<forall>options\<in>set made.
                 list_prefix options = prefix
                 \<and> list_delimiter options = (if isRecursive then None else Some ''/'')
                 \<and> list_include options = [''httpMetadata'', ''customMetadata''])"
proof -
  let ?made = "map (list_options prefix isRecursive) (None # map cursor ps)"
  have "listAll b prefix isRecursive w =
          Some (Inr (concat (map objects (ps @ [p]))),
                \<lparr>store = s', calls = calls w @ map ListCall ?made\<rparr>)"
    using listAll_loop_run [OF assms, of "[]"] by (simp add: listAll_def comp_def)
  moreover have "length ?made = length ps + 1"
    by simp
  moreover have "map list_cursor ?made = None # map cursor ps"
    by (simp add: list_options_def comp_def)
  moreover have "\<forall>options\<in>set ?made.
                   list_prefix options = prefix
                   \<and> list_delimiter options = (if isRecursive then None else Some ''/'')
                   \<and> list_include options = [''httpMetadata'', ''customMetadata'']"
    by (auto simp: list_options_def)
  ultimately show ?thesis
    by (intro exI [of _ ?made] conjI)
qed

text \<open>
  Three pages, the first two truncated with the cursors \<^verbatim>\<open>c1\<close> and \<^verbatim>\<open>c2\<close>: three
  calls, with no cursor, with \<^verbatim>\<open>c1\<close> and with \<^verbatim>\<open>c2\<close>.
\<close>

theorem listAll_pages_witness:
  "listAll (scripted_bucket None) ''public/'' False
     \<lparr>store = [sample_page [''public/a'', ''public/b''] True (Some ''c1''),
               sample_page [] True (Some ''c2''),
               sample_page [''public/c''] False None],
      calls = []\<rparr>
   = Some (Inr (map (\<lambda>k. (sample_object 3 None None)\<lparr>key := k\<rparr>)
                    [''public/a'', ''public/b'', ''public/c'']),
           \<lparr>store = [],
            calls =
              [ListCall \<lparr>list_prefix = ''public/'', list_delimiter = Some ''/'',
                         list_cursor = None,
                         list_include = [''httpMetadata'', ''customMetadata'']\<rparr>,
               ListCall \<lparr>list_prefix = ''public/'', list_delimiter = Some ''/'',
                         list_cursor = Some ''c1'',
                         list_include = [''httpMetadata'', ''customMetadata'']\<rparr>,
               ListCall \<lparr>list_prefix = ''public/'', list_delimiter = Some ''/'',
                         list_cursor = Some ''c2'',
                         list_include = [''httpMetadata'', ''customMetadata'']\<rparr>]\<rparr>)"
proof -
  let ?p1 = "sample_page [''public/a'', ''public/b''] True (Some ''c1'')"
  let ?p2 = "sample_page [] True (Some ''c2'')"
  let ?p3 = "sample_page [''public/c''] False None"
  have run: "list_run (scripted_bucket None) ''public/'' False None
               (store \<lparr>store = [?p1, ?p2, ?p3], calls = []\<rparr>) ([?p1, ?p2] @ [?p3]) []"
    by (simp add: scripted_bucket_def)
  have flags: "\<forall>q\<in>set [?p1, ?p2]. truncated q"
    by (simp add: sample_page_def)
  have last_flag: "\<not> truncated ?p3"
    by (simp add: sample_page_def)
  from listAll_pages [OF run flags last_flag]
  obtain made where
    len: "length made = length [?p1, ?p2] + 1" and
    result: "listAll (scripted_bucket None) ''public/'' False
               \<lparr>store = [?p1, ?p2, ?p3], calls = []\<rparr>
             = Some (Inr (concat (map objects ([?p1, ?p2] @ [?p3]))),
                     \<lparr>store = [],
                      calls = calls \<lparr>store = [?p1, ?p2, ?p3], calls = []\<rparr> @ map ListCall made\<rparr>)"
    and cursors: "map list_cursor made = None # map cursor [?p1, ?p2]"
    and fields: "\<forall>options\<in>set made.
                   list_prefix options = ''public/''
                   \<and> list_delimiter options = (if False then None else Some ''/'')
                   \<and> list_include options = [''httpMetadata'', ''customMetadata'']"
    by (elim exE conjE)
  from cursors obtain o1 o2 o3 where made: "made = [o1, o2, o3]"
    by (auto simp: map_eq_Cons_conv)
  have "o1 = \<lparr>list_prefix = ''public/'', list_delimiter = Some ''/'', list_cursor = None,
               list_include = [''httpMetadata'', ''customMetadata'']\<rparr>"
       "o2 = \<lparr>list_prefix = ''public/'', list_delimiter = Some ''/'', list_cursor = Some ''c1'',
               list_include = [''httpMetadata'', ''customMetadata'']\<rparr>"
       "o3 = \<lparr>list_prefix = ''public/'', list_delimiter = Some ''/'', list_cursor = Some ''c2'',
               list_include = [''httpMetadata'', ''customMetadata'']\<rparr>"
    using cursors fields unfolding made by (simp_all add: sample_page_def)
  then show ?thesis
    using result unfolding made by (simp add: sample_page_def)
qed

section \<open>HEAD\<close>

lemma handle_get_method: "handle_get (request\<lparr>request_method := m\<rparr>) b w = handle_get request b w"
  by (simp add: handle_get_def make_resource_path_def cong: if_cong)

text \<open>
  C6: the HEAD handler returns what the GET handler returns for the same request, from
  the same store calls, with the same status, status text and headers, and the body
  \<^verbatim>\<open>null\<close>; it throws or fails to return when the GET handler does. The same holds
  in the dispatcher between a request sent with HEAD and with GET, and at the entry point
  for every request that passes the gate.
\<close>

theorem head_as_get_without_body:
  "handle_head request b w = strip_body (handle_get request b w)
   \<and> dispatch_handler (request\<lparr>request_method := ''HEAD''\<rparr>) b w
       = strip_body (dispatch_handler (request\<lparr>request_method := ''GET''\<rparr>) b w)
   \<and> (is_public_path (pathname (url request))
        \<longrightarrow> fetch (request\<lparr>request_method := ''HEAD''\<rparr>) env w
              = strip_body (fetch (request\<lparr>request_method := ''GET''\<rparr>) env w))"
proof -
  have head: "handle_head request b w = strip_body (handle_get request b w)" for b :: "'a R2Bucket"
    by (auto simp: handle_head_def strip_body_def split: option.splits sum.splits prod.splits)
  have dispatch: "dispatch_handler (request\<lparr>request_method := ''HEAD''\<rparr>) b w
                    = strip_body (dispatch_handler (request\<lparr>request_method := ''GET''\<rparr>) b w)"
    for b :: "'a R2Bucket"
    by (auto simp: handle_head_def strip_body_def dispatch_handler_def handle_get_method
             split: option.splits sum.splits prod.splits)
  show ?thesis
    using head [of b] dispatch [of b] dispatch [of "bucket env"] by (simp add: fetch_def)
qed

theorem head_as_get_without_body_witness:
  "is_public_path ''/public/a.txt''
   \<and> fetch (sample_request ''GET'' ''/public/a.txt'' [])
        \<lparr>bucket = scripted_bucket (Some (sample_object 100 (Some (Suffix 30)) (Some ''data'')))\<rparr>
        \<lparr>store = [], calls = []\<rparr>
      = Some (Inr \<lparr>status = 206, statusText = [],
                   headers = [(''Content-Type'', ''application/octet-stream''),
                              (''Content-Length'', ''30''),
                              (''Content-Range'', ''bytes 70-99/100'')],
                   response_body = Some ''data''\<rparr>,
              \<lparr>store = [], calls = [GetCall ''public/a.txt'' \<lparr>get_onlyIf = [], get_range = []\<rparr>]\<rparr>)
   \<and> fetch (sample_request ''HEAD'' ''/public/a.txt'' [])
        \<lparr>bucket = scripted_bucket (Some (sample_object 100 (Some (Suffix 30)) (Some ''data'')))\<rparr>
        \<lparr>store = [], calls = []\<rparr>
      = Some (Inr \<lparr>status = 206, statusText = [],
                   headers = [(''Content-Type'', ''application/octet-stream''),
                              (''Content-Length'', ''30''),
                              (''Content-Range'', ''bytes 70-99/100'')],
                   response_body = None\<rparr>,
              \<lparr>store = [], calls = [GetCall ''public/a.txt'' \<lparr>get_onlyIf = [], get_range = []\<rparr>]\<rparr>)"
proof -
  have pub: "is_public_path ''/public/a.txt''"
    by (simp add: is_public_path_def startsWith_def)
  have get: "fetch (sample_request ''GET'' ''/public/a.txt'' [])
        \<lparr>bucket = scripted_bucket (Some (sample_object 100 (Some (Suffix 30)) (Some ''data'')))\<rparr>
        \<lparr>store = [], calls = []\<rparr>
      = Some (Inr \<lparr>status = 206, statusText = [],
                   headers = [(''Content-Type'', ''application/octet-stream''),
                              (''Content-Length'', ''30''),
                              (''Content-Range'', ''bytes 70-99/100'')],
                   response_body = Some ''data''\<rparr>,
              \<lparr>store = [], calls = [GetCall ''public/a.txt'' \<lparr>get_onlyIf = [], get_range = []\<rparr>]\<rparr>)"
    by (simp add: fetch_def pub dispatch_handler_def sample_request_def handle_get_def
          endsWith_def href_def make_resource_path_def call_get_def scripted_bucket_def
          get_response_def sample_object_def object_response_def calcContentRange_def
          numberToString_def meta_def nullish_def optional_header_def)
  have same: "(sample_request ''GET'' ''/public/a.txt'' [])\<lparr>request_method := ''HEAD''\<rparr>
                = sample_request ''HEAD'' ''/public/a.txt'' []"
             "(sample_request ''GET'' ''/public/a.txt'' [])\<lparr>request_method := ''GET''\<rparr>
                = sample_request ''GET'' ''/public/a.txt'' []"
             "pathname (url (sample_request ''GET'' ''/public/a.txt'' [])) = ''/public/a.txt''"
    by (simp_all add: sample_request_def)
  from head_as_get_without_body
         [of "sample_request ''GET'' ''/public/a.txt'' []"
             "scripted_bucket (Some (sample_object 100 (Some (Suffix 30)) (Some ''data'')))"
             "\<lparr>store = [], calls = []\<rparr>"
             "\<lparr>bucket = scripted_bucket (Some (sample_object 100 (Some (Suffix 30)) (Some ''data'')))\<rparr>"]
  have "fetch (sample_request ''HEAD'' ''/public/a.txt'' [])
          \<lparr>bucket = scripted_bucket (Some (sample_object 100 (Some (Suffix 30)) (Some ''data'')))\<rparr>
          \<lparr>store = [], calls = []\<rparr>
        = strip_body (fetch (sample_request ''GET'' ''/public/a.txt'' [])
          \<lparr>bucket = scripted_bucket (Some (sample_object 100 (Some (Suffix 30)) (Some ''data'')))\<rparr>
          \<lparr>store = [], calls = []\<rparr>)"
    unfolding same using pub by simp
  then show ?thesis
    unfolding get using pub by (simp add: strip_body_def)
qed

section \<open>The gate\<close>

lemma startsWith_public:
  assumes "is_public_path p"
  shows "startsWith p ''/public''"
proof -
  from assms have "take (length ''/public/'') p = ''/public/'' \<or> p = ''/public''"
    unfolding is_public_path_def startsWith_def .
  then show ?thesis
  proof
    assume folder: "take (length ''/public/'') p = ''/public/''"
    have "take (length ''/public'') p
            = take (length ''/public'') (take (length ''/public/'') p)"
      by simp
    also have "\<dots> = take (length ''/public'') ''/public/''"
      by (simp only: folder)
    also have "\<dots> = ''/public''"
      by simp
    finally show ?thesis
      unfolding startsWith_def .
  next
    assume "p = ''/public''"
    then show ?thesis
      by (simp add: startsWith_def)
  qed
qed

text \<open>
  C7: a request whose path does not start with \<^verbatim>\<open>/public\<close> is answered with 401,
  whatever its method, and the world is unchanged: no store call is made. (The gate lets
  through exactly the path \<^verbatim>\<open>/public\<close> and the paths that start with
  \<^verbatim>\<open>/public/\<close>.)
\<close>

theorem fetch_outside_public:
  assumes "\<not> startsWith (pathname (url request)) ''/public''"
  shows "fetch request env w =
           Some (Inr \<lparr>status = 401, statusText = [], headers = [],
                      response_body = Some ''Unauthorized''\<rparr>, w)"
  using assms startsWith_public [of "pathname (url request)"]
  by (auto simp: fetch_def)

theorem fetch_outside_public_witness:
  "fetch (sample_request ''OPTIONS'' ''/private/a.txt'' [])
         \<lparr>bucket = scripted_bucket None\<rparr> \<lparr>store = [], calls = []\<rparr>
   = Some (Inr \<lparr>status = 401, statusText = [], headers = [],
                response_body = Some ''Unauthorized''\<rparr>,
           \<lparr>store = [], calls = []\<rparr>)"
  using fetch_outside_public
          [of "sample_request ''OPTIONS'' ''/private/a.txt'' []"
              "\<lparr>bucket = scripted_bucket None\<rparr>" "\<lparr>store = [], calls = []\<rparr>"]
  by (simp add: sample_request_def startsWith_def)

section \<open>Directory listing\<close>


lemma handle_get_directory:
  assumes "endsWith (href (url request)) ''/''"
  shows "handle_get request b w =
           (case listAll b (if make_resource_path request \<noteq> []
                            then make_resource_path request @ ''/''
                            else make_resource_path request) False w of
              None \<Rightarrow> None
            | Some (Inl e, w') \<Rightarrow> Some (Inl e, w')
            | Some (Inr listed, w') \<Rightarrow>
                Some (Inr (directory_response (make_resource_path request)
                             (if make_resource_path request \<noteq> []
                              then make_resource_path request @ ''/''
                              else make_resource_path request)
                             (if make_resource_path request \<noteq> [] then parent_link else [])
                             listed), w'))"
proof (cases "make_resource_path request = []")
  case True
  with assms show ?thesis
    by (simp add: handle_get_def Let_def split: option.splits sum.splits prod.splits)
next
  case False
  with assms show ?thesis
    by (simp add: handle_get_def Let_def split: option.splits sum.splits prod.splits)
qed




text \<open>
  What the test of line 45 looks at: the last character of the path when the URL has no
  query string, the last character of the query string when it has one.
\<close>

lemma endsWith_slash: "endsWith s ''/'' = (s \<noteq> [] \<and> last s = CHR ''/'')"
proof (cases s rule: rev_cases)
  case Nil
  then show ?thesis by (simp add: endsWith_def)
next
  case (snoc ys y)
  then show ?thesis by (simp add: endsWith_def)
qed

lemma directory_test_without_query:
  assumes "search (url request) = []" and "pathname (url request) \<noteq> []"
  shows "endsWith (href (url request)) ''/'' = endsWith (pathname (url request)) ''/''"
  using assms by (simp add: endsWith_slash href_def)

lemma directory_test_with_query:
  assumes "search (url request) \<noteq> []"
  shows "endsWith (href (url request)) ''/'' = endsWith (search (url request)) ''/''"
  using assms by (simp add: endsWith_slash href_def)

text \<open>
  C9 fails on the code: the handler tests the whole of \<^verbatim>\<open>request.url\<close>, query
  string included, where \<^verbatim>\<open>make_resource_path\<close> tests the path. A request for the
  path \<^verbatim>\<open>/public/dir/\<close> with the query \<^verbatim>\<open>?v=1\<close> is served by the object fetch
  (one get call for the key \<^verbatim>\<open>public/dir\<close>, no list call), and a request for the
  path \<^verbatim>\<open>/public/a.txt\<close> with the query \<^verbatim>\<open>?next=/\<close> is served by the directory
  listing (one list call, no get call).
\<close>

theorem handle_get_query_string:
  "endsWith (pathname (url (sample_request ''GET'' ''/public/dir/'' ''?v=1''))) ''/''
   \<and> handle_get (sample_request ''GET'' ''/public/dir/'' ''?v=1'') (scripted_bucket None)
         \<lparr>store = [sample_listing], calls = []\<rparr>
       = Some (Inr \<lparr>status = 404, statusText = [], headers = [],
                    response_body = Some ''Not Found''\<rparr>,
               \<lparr>store = [sample_listing],
                calls = [GetCall ''public/dir'' \<lparr>get_onlyIf = [], get_range = []\<rparr>]\<rparr>)
   \<and> \<not> endsWith (pathname (url (sample_request ''GET'' ''/public/a.txt'' ''?next=/''))) ''/''
   \<and> handle_get (sample_request ''GET'' ''/public/a.txt'' ''?next=/'')
         (scripted_bucket (Some (sample_object 3 None (Some ''abc''))))
         \<lparr>store = [sample_page [] False None], calls = []\<rparr>
       = Some (Inr (directory_response ''public/a.txt'' ''public/a.txt/'' parent_link []),
               \<lparr>store = [],
                calls = [ListCall (list_options ''public/a.txt/'' False None)]\<rparr>)"
proof -
  have listed: "listAll (scripted_bucket (Some (sample_object 3 None (Some ''abc''))))
                  ''public/a.txt/'' False \<lparr>store = [sample_page [] False None], calls = []\<rparr>
                = Some (Inr [], \<lparr>store = [],
                                 calls = [ListCall (list_options ''public/a.txt/'' False None)]\<rparr>)"
    unfolding listAll_def
    using listAll_loop_run
            [of "scripted_bucket (Some (sample_object 3 None (Some ''abc'')))" "''public/a.txt/''"
                False None "\<lparr>store = [sample_page [] False None], calls = []\<rparr>" "[]"
                "sample_page [] False None" "[]" "[]"]
    by (simp add: scripted_bucket_def sample_page_def)
  have ends: "endsWith (href (url (sample_request ''GET'' ''/public/a.txt'' ''?next=/''))) ''/''"
    by (simp add: sample_request_def endsWith_def href_def)
  have path: "make_resource_path (sample_request ''GET'' ''/public/a.txt'' ''?next=/'') = ''public/a.txt''"
    by (simp add: sample_request_def make_resource_path_def endsWith_def)
  have "handle_get (sample_request ''GET'' ''/public/a.txt'' ''?next=/'')
         (scripted_bucket (Some (sample_object 3 None (Some ''abc''))))
         \<lparr>store = [sample_page [] False None], calls = []\<rparr>
       = Some (Inr (directory_response ''public/a.txt'' ''public/a.txt/'' parent_link []),
               \<lparr>store = [],
                calls = [ListCall (list_options ''public/a.txt/'' False None)]\<rparr>)"
    unfolding handle_get_directory [OF ends] path using listed by simp
  then show ?thesis
    by (simp add: sample_request_def endsWith_def href_def make_resource_path_def handle_get_def
                call_get_def scripted_bucket_def get_response_def)
qed

lemma public_resource_path:
  assumes "is_public_path (pathname (url request))"
  shows "make_resource_path request \<noteq> []"
proof -
  let ?p = "pathname (url request)"
  from assms have "take (length ''/public/'') ?p = ''/public/'' \<or> ?p = ''/public''"
    unfolding is_public_path_def startsWith_def .
  then show ?thesis
  proof
    assume folder: "take (length ''/public/'') ?p = ''/public/''"
    have "length (take (length ''/public/'') ?p) = 8"
      by (simp only: folder) simp
    then have "8 \<le> length ?p"
      by simp
    then have "7 \<le> length (drop 1 ?p)"
      by simp
    then have "6 \<le> length (make_resource_path request)"
      by (auto simp: make_resource_path_def Let_def)
    then show ?thesis
      by auto
  next
    assume "?p = ''/public''"
    then show ?thesis
      by (simp add: make_resource_path_def endsWith_def)
  qed
qed

lemma directory_response_empty:
  "listed = []
     \<Longrightarrow> response_body (directory_response resource_path prefix page listed)
           = Some (pageSource page)"
  by (simp add: directory_response_def)

text \<open>
  C10: a GET request that passes the gate and whose URL ends with \<^verbatim>\<open>/\<close> is answered,
  when the store answers the list calls with a finite run of pages and none of them
  throws, with status 200 and the single header
  \<^verbatim>\<open>Content-Type: text/html; charset=utf-8\<close>; when no page holds an object the body
  is the template around the parent link alone.
\<close>

theorem fetch_directory_ok:
  assumes "is_public_path (pathname (url request))"
    and "request_method request = ''GET''"
    and "endsWith (href (url request)) ''/''"
    and "list_run (bucket env) (make_resource_path request @ ''/'') False None (store w)
           (ps @ [p]) s'"
    and "\<forall>q\<in>set ps. truncated q"
    and "\<not> truncated p"
  shows "\<exists>response w'. fetch request env w = Some (Inr response, w')
           \<and> status response = 200
           \<and> headers response = [(''Content-Type'', ''text/html; charset=utf-8'')]
           \<and> (concat (map objects (ps @ [p])) = []
                \<longrightarrow> response_body response = Some (pageSource parent_link))"
proof -
  have nonempty: "make_resource_path request \<noteq> []"
    using assms(1) by (rule public_resource_path)
  let ?listed = "concat (map objects (ps @ [p]))"
  let ?response = "directory_response (make_resource_path request)
                     (make_resource_path request @ ''/'') parent_link ?listed"
  let ?w' = "\<lparr>store = s',
              calls = calls w
                @ map (\<lambda>c. ListCall (list_options (make_resource_path request @ ''/'') False c))
                      (None # map cursor ps)\<rparr>"
  have "listAll (bucket env) (make_resource_path request @ ''/'') False w
          = Some (Inr ?listed, ?w')"
    unfolding listAll_def
    using listAll_loop_run [OF assms(4) assms(5) assms(6), of "[]"] by simp
  then have "handle_get request (bucket env) w = Some (Inr ?response, ?w')"
    unfolding handle_get_directory [OF assms(3)] using nonempty by simp
  then have answered: "fetch request env w = Some (Inr ?response, ?w')"
    using assms(1) assms(2) by (simp add: fetch_def dispatch_handler_def)
  have "status ?response = 200"
    by (simp add: directory_response_def)
  moreover have "headers ?response = [(''Content-Type'', ''text/html; charset=utf-8'')]"
    by (simp add: directory_response_def)
  moreover have "?listed = [] \<longrightarrow> response_body ?response = Some (pageSource parent_link)"
  proof
    assume no_entries: "?listed = []"
    show "response_body ?response = Some (pageSource parent_link)"
      using no_entries by (rule directory_response_empty)
  qed
  ultimately show ?thesis
    using answered by blast
qed

theorem fetch_directory_ok_witness:
  "\<exists>response w'.
      fetch (sample_request ''GET'' ''/public/empty/'' []) \<lparr>bucket = scripted_bucket None\<rparr>
            \<lparr>store = [sample_page [] True (Some ''c1''), sample_page [] False None], calls = []\<rparr>
        = Some (Inr response, w')
      \<and> status response = 200
      \<and> headers response = [(''Content-Type'', ''text/html; charset=utf-8'')]
      \<and> response_body response = Some (pageSource parent_link)"
proof -
  have pub: "is_public_path (pathname (url (sample_request ''GET'' ''/public/empty/'' [])))"
    by (simp add: sample_request_def is_public_path_def startsWith_def)
  have get: "request_method (sample_request ''GET'' ''/public/empty/'' []) = ''GET''"
    by (simp add: sample_request_def)
  have ends: "endsWith (href (url (sample_request ''GET'' ''/public/empty/'' []))) ''/''"
    by (simp add: sample_request_def endsWith_def href_def)
  have run: "list_run (bucket \<lparr>bucket = scripted_bucket None\<rparr>)
               (make_resource_path (sample_request ''GET'' ''/public/empty/'' []) @ ''/'') False None
               (store \<lparr>store = [sample_page [] True (Some ''c1''), sample_page [] False None],
                       calls = []\<rparr>)
               ([sample_page [] True (Some ''c1'')] @ [sample_page [] False None]) []"
    by (simp add: scripted_bucket_def)
  have more: "\<forall>q\<in>set [sample_page [] True (Some ''c1'')]. truncated q"
    by (simp add: sample_page_def)
  have last: "\<not> truncated (sample_page [] False None)"
    by (simp add: sample_page_def)
  from fetch_directory_ok [OF pub get ends run more last]
  show ?thesis
    by (simp add: sample_page_def)
qed

end
